theory Spec2Isabelle
  imports Main "HOL-Library.Monad_Syntax"
begin

section \<open>JavaScript values\<close>

text \<open>
  The ingestion tool \<^verbatim>\<open>tools/fetch-relays.js\<close> works on untyped JSON data, so the
  embedding starts with a datatype of JavaScript values. The program never computes with
  numbers: it tests their type, copies them and turns them into property keys. A finite
  number is therefore represented by its canonical decimal text (what
  \<^verbatim>\<open>Number.prototype.toString\<close> returns for it); the non-finite numbers are
  separate constructors (\<^verbatim>\<open>JSON.parse\<close> reads \<^verbatim>\<open>1e999\<close> as
  \<^verbatim>\<open>Infinity\<close>).

  An object is the ordered list of its own properties, as \<^verbatim>\<open>JSON.parse\<close>
  creates them; a property read sees own properties only (members inherited from
  \<^verbatim>\<open>Object.prototype\<close>, such as the key \<^verbatim>\<open>constructor\<close>, are not
  part of the model). Strings are byte strings and the case conversions act on the ASCII
  letters.
\<close>

datatype jsnum = Finite string | PosInfinity | NegInfinity | NaN

datatype jsval =
    JUndefined
  | JNull
  | JBool bool
  | JNum jsnum
  | JStr string
  | JArr "jsval list"
  | JObj "(string \<times> jsval) list"

text \<open>Truthiness (\<^verbatim>\<open>ToBoolean\<close>): what \<^verbatim>\<open>if (x)\<close>, \<^verbatim>\<open>x && y\<close> and
  \<^verbatim>\<open>x || y\<close> test.\<close>

fun truthy :: "jsval \<Rightarrow> bool" where
  "truthy JUndefined = False"
| "truthy JNull = False"
| "truthy (JBool b) = b"
| "truthy (JNum n) = (n \<noteq> NaN \<and> n \<noteq> Finite ''0'')"
| "truthy (JStr s) = (s \<noteq> [])"
| "truthy (JArr xs) = True"
| "truthy (JObj kvs) = True"

text \<open>\<^verbatim>\<open>a || b\<close> on values.\<close>

definition or_else :: "jsval \<Rightarrow> jsval \<Rightarrow> jsval" where
  "or_else a b = (if truthy a then a else b)"

text \<open>\<^verbatim>\<open>typeof x === 'number'\<close> and \<^verbatim>\<open>typeof x === 'boolean'\<close>.\<close>

fun is_number :: "jsval \<Rightarrow> bool" where
  "is_number (JNum n) = True"
| "is_number v = False"

fun is_boolean :: "jsval \<Rightarrow> bool" where
  "is_boolean (JBool b) = True"
| "is_boolean v = False"


fun nullish :: "jsval \<Rightarrow> bool" where
  "nullish JUndefined = True"
| "nullish JNull = True"
| "nullish v = False"

subsection \<open>Strings\<close>

definition upper_letters :: string where
  "upper_letters = ''ABCDEFGHIJKLMNOPQRSTUVWXYZ''"

definition lower_letters :: string where
  "lower_letters = ''abcdefghijklmnopqrstuvwxyz''"

definition lower_char :: "char \<Rightarrow> char" where
  "lower_char c = (case map_of (zip upper_letters lower_letters) c of Some d \<Rightarrow> d | None \<Rightarrow> c)"

definition upper_char :: "char \<Rightarrow> char" where
  "upper_char c = (case map_of (zip lower_letters upper_letters) c of Some d \<Rightarrow> d | None \<Rightarrow> c)"

definition lowercase :: "string \<Rightarrow> string" where
  "lowercase s = map lower_char s"

definition uppercase :: "string \<Rightarrow> string" where
  "uppercase s = map upper_char s"

text \<open>Decimal text of a natural number (array indices and lengths as property keys).\<close>

definition digit_char :: "nat \<Rightarrow> char" where
  "digit_char d = ''0123456789'' ! d"

fun nat_text :: "nat \<Rightarrow> string" where
  "nat_text n = (if n < 10 then [digit_char n] else nat_text (n div 10) @ [digit_char (n mod 10)])"

declare nat_text.simps [simp del]

fun num_text :: "jsnum \<Rightarrow> string" where
  "num_text (Finite s) = s"
| "num_text PosInfinity = ''Infinity''"
| "num_text NegInfinity = ''-Infinity''"
| "num_text NaN = ''NaN''"

text \<open>
  \<^verbatim>\<open>ToString\<close>, which \<^verbatim>\<open>String(x)\<close>, \<^verbatim>\<open>x.toString()\<close>, a computed property
  key \<^verbatim>\<open>o[x]\<close> and \<^verbatim>\<open>regex.test(x)\<close> apply. \<^term>\<open>None\<close> is a thrown
  \<^verbatim>\<open>TypeError\<close>: an object parsed from JSON that has an own property
  \<^verbatim>\<open>toString\<close> hides the inherited method behind a value that cannot be called.
  An array is joined with commas, \<^verbatim>\<open>null\<close> and \<^verbatim>\<open>undefined\<close> elements
  giving the empty string.
\<close>

fun to_string :: "jsval \<Rightarrow> string option"
  and join_elements :: "jsval list \<Rightarrow> string option" where
  "to_string JUndefined = Some ''undefined''"
| "to_string JNull = Some ''null''"
| "to_string (JBool b) = Some (if b then ''true'' else ''false'')"
| "to_string (JNum n) = Some (num_text n)"
| "to_string (JStr s) = Some s"
| "to_string (JArr xs) = join_elements xs"
| "to_string (JObj kvs) =
     (if ''toString'' \<in> set (map fst kvs) then None else Some ''[object Object]'')"
| "join_elements [] = Some []"
| "join_elements [x] = (if nullish x then Some [] else to_string x)"
| "join_elements (x # y # ys) =
     (case (if nullish x then Some [] else to_string x) of
        None \<Rightarrow> None
      | Some a \<Rightarrow> (case join_elements (y # ys) of None \<Rightarrow> None | Some b \<Rightarrow> Some (a @ '','' @ b)))"

text \<open>The method calls \<^verbatim>\<open>x.toUpperCase()\<close> and \<^verbatim>\<open>x.toLowerCase()\<close>: only a
  string has these methods, every other receiver throws a \<^verbatim>\<open>TypeError\<close>.\<close>

fun toUpperCase :: "jsval \<Rightarrow> string option" where
  "toUpperCase (JStr s) = Some (uppercase s)"
| "toUpperCase v = None"

fun toLowerCase :: "jsval \<Rightarrow> string option" where
  "toLowerCase (JStr s) = Some (lowercase s)"
| "toLowerCase v = None"

text \<open>\<^verbatim>\<open>/mullvad/i.test(s)\<close>: the text contains \<^verbatim>\<open>mullvad\<close> in any letter case.\<close>

fun starts_with :: "string \<Rightarrow> string \<Rightarrow> bool" where
  "starts_with [] s = True"
| "starts_with (p # ps) [] = False"
| "starts_with (p # ps) (c # cs) = (p = c \<and> starts_with ps cs)"

fun contains_text :: "string \<Rightarrow> string \<Rightarrow> bool" where
  "contains_text p [] = (p = [])"
| "contains_text p (c # cs) = (starts_with p (c # cs) \<or> contains_text p cs)"

definition test_mullvad :: "string \<Rightarrow> bool" where
  "test_mullvad s = contains_text ''mullvad'' (lowercase s)"

subsection \<open>Property reads\<close>

text \<open>
  \<^verbatim>\<open>o.k\<close> on a receiver that is neither \<^verbatim>\<open>null\<close> nor \<^verbatim>\<open>undefined\<close>:
  an own property of an object, an index or the length of an array or string, and
  \<^verbatim>\<open>undefined\<close> otherwise.
\<close>

fun own :: "jsval \<Rightarrow> string \<Rightarrow> jsval" where
  "own (JObj kvs) k = (case map_of kvs k of Some v \<Rightarrow> v | None \<Rightarrow> JUndefined)"
| "own (JArr xs) k =
     (case map_of (zip (map nat_text [0..<length xs]) xs) k of
        Some v \<Rightarrow> v
      | None \<Rightarrow> if k = ''length'' then JNum (Finite (nat_text (length xs))) else JUndefined)"
| "own (JStr s) k =
     (case map_of (zip (map nat_text [0..<length s]) s) k of
        Some c \<Rightarrow> JStr [c]
      | None \<Rightarrow> if k = ''length'' then JNum (Finite (nat_text (length s))) else JUndefined)"
| "own v k = JUndefined"

text \<open>A property read on any receiver: \<^verbatim>\<open>null\<close> and \<^verbatim>\<open>undefined\<close> throw.\<close>

definition js_get :: "jsval \<Rightarrow> string \<Rightarrow> jsval option" where
  "js_get v k = (if nullish v then None else Some (own v k))"

section \<open>Lookup tables\<close>

text \<open>
  The module keeps two tables that are loaded from files (\<^verbatim>\<open>cityCoordsFromFile\<close>,
  \<^verbatim>\<open>countriesMap\<close>, whatever JSON the files hold) and three literal tables. The
  functions below read them from a record, so that the module state is explicit.
\<close>

record tables =
  cityCoordsFromFile :: jsval
  countriesMap :: jsval
  cityCodeToCityName :: "(string \<times> string) list"
  countryCodeToName :: "(string \<times> string) list"
  countryCentroids :: "(string \<times> jsnum \<times> jsnum) list"

definition cityCodeToCityName_literal :: "(string \<times> string) list" where
  "cityCodeToCityName_literal =
    [(''sea'', ''Seattle''), (''lax'', ''Los Angeles''), (''tor'', ''Toronto''),
     (''van'', ''Vancouver''), (''sfo'', ''San Francisco''), (''tia'', ''Tirana''),
     (''dal'', ''Dallas''), (''chi'', ''Chicago''), (''nyc'', ''New York''),
     (''adl'', ''Adelaide''), (''mel'', ''Melbourne''), (''per'', ''Perth''),
     (''syd'', ''Sydney''), (''yyc'', ''Calgary''), (''mtr'', ''Montreal''),
     (''par'', ''Paris''), (''bru'', ''Brussels''), (''vie'', ''Vienna''),
     (''sof'', ''Sofia''), (''hel'', ''Helsinki''), (''cph'', ''Copenhagen''),
     (''lon'', ''London''), (''bos'', ''Boston''), (''was'', ''Washington DC''),
     (''den'', ''Denver''), (''atl'', ''Atlanta''), (''phx'', ''Phoenix''),
     (''scl'', ''Santiago'')]"

definition countryCodeToName_literal :: "(string \<times> string) list" where
  "countryCodeToName_literal =
    [(''US'', ''United States''), (''GB'', ''United Kingdom''), (''AU'', ''Australia''),
     (''DE'', ''Germany''), (''FR'', ''France''), (''NL'', ''Netherlands''),
     (''BE'', ''Belgium''), (''CA'', ''Canada''), (''DK'', ''Denmark''), (''ES'', ''Spain''),
     (''FI'', ''Finland''), (''SE'', ''Sweden''), (''GR'', ''Greece''), (''AT'', ''Austria''),
     (''IE'', ''Ireland''), (''CH'', ''Switzerland''), (''PT'', ''Portugal''),
     (''CY'', ''Cyprus''), (''EE'', ''Estonia''), (''RO'', ''Romania''), (''PL'', ''Poland''),
     (''CZ'', ''Czechia''), (''NO'', ''Norway''), (''IT'', ''Italy''), (''JP'', ''Japan''),
     (''CN'', ''China''), (''KR'', ''South Korea''), (''MX'', ''Mexico''), (''BR'', ''Brazil''),
     (''CL'', ''Chile''), (''CO'', ''Colombia''), (''ZA'', ''South Africa''),
     (''SG'', ''Singapore''), (''NZ'', ''New Zealand''), (''IL'', ''Israel'')]"

definition countryCentroids_literal :: "(string \<times> jsnum \<times> jsnum) list" where
  "countryCentroids_literal =
    [(''United States'', Finite ''37.0902'', Finite ''-95.7129''),
     (''United Kingdom'', Finite ''55.3781'', Finite ''-3.436''),
     (''Australia'', Finite ''-25.2744'', Finite ''133.7751''),
     (''Germany'', Finite ''51.1657'', Finite ''10.4515''),
     (''France'', Finite ''46.2276'', Finite ''2.2137''),
     (''Netherlands'', Finite ''52.14'', Finite ''5.2913''),
     (''Canada'', Finite ''56.1304'', Finite ''-106.3468'')]"

text \<open>The module state after the two loaders have run.\<close>

definition module_tables :: "jsval \<Rightarrow> jsval \<Rightarrow> tables" where
  "module_tables cityCoords countries =
     \<lparr> cityCoordsFromFile = cityCoords, countriesMap = countries,
       cityCodeToCityName = cityCodeToCityName_literal,
       countryCodeToName = countryCodeToName_literal,
       countryCentroids = countryCentroids_literal \<rparr>"

section \<open>Coordinate resolver\<close>

text \<open>\<^verbatim>\<open>getCountryNameFromCode(code)\<close>.\<close>

definition getCountryNameFromCode :: "tables \<Rightarrow> jsval \<Rightarrow> jsval option" where
  "getCountryNameFromCode T code =
     (if \<not> truthy code then Some (JStr ''Unknown'')
      else do {
        s \<leftarrow> to_string code;
        let c = uppercase s;
        fromFile \<leftarrow> js_get (countriesMap T) c;
        if truthy fromFile then Some fromFile
        else (case map_of (countryCodeToName T) c of
                Some name \<Rightarrow> if name \<noteq> [] then Some (JStr name) else Some (JStr ''Unknown'')
              | None \<Rightarrow> Some (JStr ''Unknown''))
      })"

text \<open>
  The result of the resolver: the array \<^verbatim>\<open>[lat, lon]\<close> of two numbers, or
  \<^verbatim>\<open>null\<close>. The caller reads the two elements with \<^verbatim>\<open>Number(coords[0])\<close>
  and \<^verbatim>\<open>Number(coords[1])\<close>, and \<^verbatim>\<open>Number\<close> returns a number as it is.
\<close>

datatype coordinates = Resolved jsnum jsnum | Unresolved

text \<open>
  The block that \<^verbatim>\<open>resolveCoordinates\<close> repeats for each key it tries:
  \<^verbatim>\<open>if (cityCoordsFromFile[key]) { const v = cityCoordsFromFile[key];
  if (typeof v.lat === 'number' && typeof v.lon === 'number') return [v.lat, v.lon]; }\<close>.
  The outer option is the \<^verbatim>\<open>TypeError\<close> of reading a property of
  \<^verbatim>\<open>null\<close>; the inner one says whether the block returned.
\<close>

definition tryKey :: "tables \<Rightarrow> string \<Rightarrow> (jsnum \<times> jsnum) option option" where
  "tryKey T key = do {
     v \<leftarrow> js_get (cityCoordsFromFile T) key;
     Some (if truthy v then
             (case (own v ''lat'', own v ''lon'') of
                (JNum a, JNum b) \<Rightarrow> Some (a, b)
              | _ \<Rightarrow> None)
           else None)
   }"

text \<open>
  The four strategies of \<^verbatim>\<open>resolveCoordinates\<close>, which the source numbers in its
  comments: 1) the city code as a key, 2) the lowercased and then the exact city name as a
  key, 3) the friendly name of the city code as a key, 4) the country centroid. Each
  either returns a pair (the function then returns it) or falls through.
\<close>

definition byCityCode :: "tables \<Rightarrow> jsval \<Rightarrow> (jsnum \<times> jsnum) option option" where
  "byCityCode T cityCode =
     (if truthy cityCode then do { k \<leftarrow> to_string cityCode; tryKey T k } else Some None)"

definition byCityName :: "tables \<Rightarrow> jsval \<Rightarrow> (jsnum \<times> jsnum) option option" where
  "byCityName T cityName =
     (if truthy cityName then do {
        key \<leftarrow> toLowerCase cityName;
        lower \<leftarrow> tryKey T key;
        case lower of
          Some c \<Rightarrow> Some (Some c)
        | None \<Rightarrow> do { k \<leftarrow> to_string cityName; tryKey T k }
      }
      else Some None)"

definition byFriendlyName :: "tables \<Rightarrow> jsval \<Rightarrow> (jsnum \<times> jsnum) option option" where
  "byFriendlyName T cityCode =
     (if truthy cityCode then do {
        k \<leftarrow> to_string cityCode;
        case map_of (cityCodeToCityName T) k of
          Some friendly \<Rightarrow> if friendly \<noteq> [] then tryKey T friendly else Some None
        | None \<Rightarrow> Some None
      }
      else Some None)"

definition byCountryCentroid :: "tables \<Rightarrow> jsval \<Rightarrow> (jsnum \<times> jsnum) option option" where
  "byCountryCentroid T countryCode = do {
     country \<leftarrow> getCountryNameFromCode T countryCode;
     if truthy country then do { k \<leftarrow> to_string country; Some (map_of (countryCentroids T) k) }
     else Some None
   }"

definition resolveCoordinates :: "tables \<Rightarrow> jsval \<Rightarrow> jsval \<Rightarrow> jsval \<Rightarrow> coordinates option" where
  "resolveCoordinates T countryCode cityCode cityName = do {
     first \<leftarrow> byCityCode T cityCode;
     case first of
       Some (a, b) \<Rightarrow> Some (Resolved a b)
     | None \<Rightarrow> do {
         second \<leftarrow> byCityName T cityName;
         case second of
           Some (a, b) \<Rightarrow> Some (Resolved a b)
         | None \<Rightarrow> do {
             third \<leftarrow> byFriendlyName T cityCode;
             case third of
               Some (a, b) \<Rightarrow> Some (Resolved a b)
             | None \<Rightarrow> do {
                 fourth \<leftarrow> byCountryCentroid T countryCode;
                 case fourth of
                   Some (a, b) \<Rightarrow> Some (Resolved a b)
                 | None \<Rightarrow> Some Unresolved
               }
           }
       }
   }"

section \<open>Record normalizer\<close>

text \<open>
  \<^verbatim>\<open>mapApiRelayToCanonical(apiRelay)\<close>. The definitions before it are the local
  values \<^verbatim>\<open>cityName\<close>, \<^verbatim>\<open>t\<close>, \<^verbatim>\<open>protocols\<close>,
  \<^verbatim>\<open>ownership\<close>, \<^verbatim>\<open>countryCode\<close> and \<^verbatim>\<open>country\<close> of the
  function; the function evaluates them in the order of its \<open>do\<close> block.
\<close>

definition cityNameOf :: "tables \<Rightarrow> jsval \<Rightarrow> jsval option" where
  "cityNameOf T apiRelay =
     (if truthy (own apiRelay ''city_name'') then Some (own apiRelay ''city_name'')
      else if truthy (own apiRelay ''city_code'') then do {
        k \<leftarrow> to_string (own apiRelay ''city_code'');
        case map_of (cityCodeToCityName T) k of
          Some friendly \<Rightarrow>
            if friendly \<noteq> [] then Some (JStr friendly)
            else map_option JStr (toUpperCase (own apiRelay ''city_code''))
        | None \<Rightarrow> map_option JStr (toUpperCase (own apiRelay ''city_code''))
      }
      else Some (JStr []))"

definition typeTag :: "jsval \<Rightarrow> string option" where
  "typeTag apiRelay = map_option lowercase (to_string (or_else (own apiRelay ''type'') (JStr [])))"

definition protocolsOf :: "string \<Rightarrow> jsval list" where
  "protocolsOf t =
     (if t = ''wireguard'' \<or> t = ''wg'' then [JStr ''WireGuard''] else []) @
     (if t = ''openvpn'' \<or> t = ''ovpn'' then [JStr ''OpenVPN''] else [])"

definition ownershipOf :: "jsval \<Rightarrow> string option" where
  "ownershipOf apiRelay =
     (case own apiRelay ''owned'' of
        JBool owned \<Rightarrow> Some (if owned then ''Mullvad'' else ''Rented'')
      | _ \<Rightarrow>
          if truthy (own apiRelay ''provider'') then do {
            s \<leftarrow> to_string (own apiRelay ''provider'');
            Some (if test_mullvad s then ''Mullvad'' else ''Rented'')
          }
          else Some ''Rented'')"

definition countryCodeOf :: "jsval \<Rightarrow> string option" where
  "countryCodeOf apiRelay =
     toUpperCase (or_else (own apiRelay ''country_code'') (or_else (own apiRelay ''country'') (JStr [])))"

definition countryOf :: "tables \<Rightarrow> jsval \<Rightarrow> string \<Rightarrow> jsval option" where
  "countryOf T apiRelay countryCode =
     (if truthy (own apiRelay ''country_name'') then Some (own apiRelay ''country_name'')
      else do {
        name \<leftarrow> getCountryNameFromCode T (JStr countryCode);
        Some (or_else name (JStr ''Unknown''))
      })"

definition mapApiRelayToCanonical :: "tables \<Rightarrow> jsval \<Rightarrow> jsval option" where
  "mapApiRelayToCanonical T apiRelay =
     (if nullish apiRelay then None
      else do {
        let hostname = or_else (own apiRelay ''hostname'') (or_else (own apiRelay ''fqdn'') (JStr []));
        countryCode \<leftarrow> countryCodeOf apiRelay;
        country \<leftarrow> countryOf T apiRelay countryCode;
        cityName \<leftarrow> cityNameOf T apiRelay;
        t \<leftarrow> typeTag apiRelay;
        ownership \<leftarrow> ownershipOf apiRelay;
        coords \<leftarrow> resolveCoordinates T (JStr countryCode) (own apiRelay ''city_code'') cityName;
        Some (JObj
          [(''id'', hostname),
           (''country'', country),
           (''countryCode'', or_else (JStr countryCode) (JStr ''XX'')),
           (''city'', or_else cityName (JStr [])),
           (''lat'', case coords of Resolved a b \<Rightarrow> JNum a | Unresolved \<Rightarrow> JNull),
           (''lon'', case coords of Resolved a b \<Rightarrow> JNum b | Unresolved \<Rightarrow> JNull),
           (''ownership'', JStr ownership),
           (''protocols'', JArr (protocolsOf t)),
           (''active'', if truthy apiRelay \<and> is_boolean (own apiRelay ''active'')
                        then own apiRelay ''active'' else JBool True)])
      })"

section \<open>Pipeline orchestrator\<close>

text \<open>
  The files the tool reads and writes. A file is either text that \<^verbatim>\<open>JSON.parse\<close>
  rejects, or the JSON text of a value; \<^verbatim>\<open>JSON.stringify\<close> is a function of the
  value, so two files written from equal values are equal byte for byte. The fallback
  paths of the two loaders, which the source builds in place, are named
  \<open>ROOT_CITY_COORDS_PATH\<close> and \<open>ROOT_COUNTRIES_PATH\<close>.
\<close>

datatype path =
    RELAYS_PATH | ROOT_RELAYS_PATH
  | CITY_COORDS_PATH | ROOT_CITY_COORDS_PATH
  | COUNTRIES_PATH | ROOT_COUNTRIES_PATH
  | RAW_API_PATH | ROOT_RAW_API_PATH

datatype filetext = NotJson | Json jsval

text \<open>What \<^verbatim>\<open>console.error\<close> prints.\<close>

datatype message = FetchFailed | RawWriteFailed path | WriteFailed path | IngestionFailed

text \<open>
  The world around a run: the files, whether the directory \<^verbatim>\<open>tools/data\<close> exists
  and can be created, which paths accept a write, a clock (which the tool never reads),
  and the error output.
\<close>

record world =
  files :: "path \<Rightarrow> filetext option"
  dataDir :: bool
  mkdirOk :: bool
  writable :: "path \<Rightarrow> bool"
  clock :: nat
  errors :: "message list"

text \<open>The upstream answer: \<^verbatim>\<open>fetch\<close> throws, or gives a response with its
  \<^verbatim>\<open>ok\<close> flag and its body.\<close>

datatype response = NetworkError | Response bool filetext

datatype status = Completed | Exit1

definition inDataDir :: "path \<Rightarrow> bool" where
  "inDataDir p = (p = RELAYS_PATH \<or> p = CITY_COORDS_PATH \<or> p = COUNTRIES_PATH \<or> p = RAW_API_PATH)"

definition ensureDataDir :: "world \<Rightarrow> world" where
  "ensureDataDir w = (if mkdirOk w then w\<lparr>dataDir := True\<rparr> else w)"

text \<open>\<^verbatim>\<open>JSON.parse(await readFile(p, 'utf8'))\<close>; \<^term>\<open>None\<close> when either throws.\<close>

definition readJson :: "world \<Rightarrow> path \<Rightarrow> jsval option" where
  "readJson w p = (case files w p of Some (Json v) \<Rightarrow> Some v | _ \<Rightarrow> None)"

definition loadCityCoords :: "world \<Rightarrow> jsval" where
  "loadCityCoords w =
     (case readJson w CITY_COORDS_PATH of
        Some v \<Rightarrow> v
      | None \<Rightarrow> (case readJson w ROOT_CITY_COORDS_PATH of Some v \<Rightarrow> v | None \<Rightarrow> JObj []))"

fun is_object :: "jsval \<Rightarrow> bool" where
  "is_object (JObj kvs) = True"
| "is_object (JArr xs) = True"
| "is_object JNull = True"
| "is_object v = False"

fun is_array :: "jsval \<Rightarrow> bool" where
  "is_array (JArr xs) = True"
| "is_array v = False"

definition loadCountries :: "world \<Rightarrow> jsval" where
  "loadCountries w =
     (case readJson w COUNTRIES_PATH of
        Some parsed \<Rightarrow> if truthy parsed \<and> is_object parsed then parsed else JObj []
      | None \<Rightarrow>
          (case readJson w ROOT_COUNTRIES_PATH of
             Some parsed \<Rightarrow> if truthy parsed \<and> is_object parsed then parsed else JObj []
           | None \<Rightarrow> JObj []))"

text \<open>
  The value whose JSON text \<^verbatim>\<open>JSON.stringify(v, null, 2)\<close> is: a non-finite number
  and an \<^verbatim>\<open>undefined\<close> array element are written as \<^verbatim>\<open>null\<close>, a property
  whose value is \<^verbatim>\<open>undefined\<close> is left out.
\<close>

fun json_value :: "jsval \<Rightarrow> jsval" where
  "json_value JUndefined = JNull"
| "json_value (JNum (Finite s)) = JNum (Finite s)"
| "json_value (JNum n) = JNull"
| "json_value (JArr xs) = JArr (map json_value xs)"
| "json_value (JObj kvs) =
     JObj (map (\<lambda>kv. (fst kv, json_value (snd kv))) (filter (\<lambda>kv. snd kv \<noteq> JUndefined) kvs))"
| "json_value v = v"

definition JSON_stringify :: "jsval \<Rightarrow> filetext" where
  "JSON_stringify v = Json (json_value v)"

text \<open>\<^verbatim>\<open>writeFile(p, text, 'utf8')\<close>; \<^term>\<open>None\<close> when it throws.\<close>

definition writeFile :: "path \<Rightarrow> filetext \<Rightarrow> world \<Rightarrow> world option" where
  "writeFile p f w =
     (if writable w p \<and> (if inDataDir p then dataDir w else True)
      then Some (w\<lparr>files := (files w)(p \<mapsto> f)\<rparr>) else None)"

text \<open>\<^verbatim>\<open>try { await writeFile(p, text) } catch (e) { console.error(...) }\<close>.\<close>

definition tryWrite :: "path \<Rightarrow> filetext \<Rightarrow> message \<Rightarrow> world \<Rightarrow> world" where
  "tryWrite p f m w = (case writeFile p f w of Some w' \<Rightarrow> w' | None \<Rightarrow> w\<lparr>errors := errors w @ [m]\<rparr>)"

definition fetchRelaysFromApi :: "response \<Rightarrow> jsval list option" where
  "fetchRelaysFromApi res =
     (case res of
        NetworkError \<Rightarrow> None
      | Response ok body \<Rightarrow>
          if \<not> ok then None
          else (case body of
                  NotJson \<Rightarrow> None
                | Json json \<Rightarrow> (case json of JArr relays \<Rightarrow> Some relays | _ \<Rightarrow> None)))"

text \<open>The second \<^verbatim>\<open>map\<close> of \<^verbatim>\<open>ingest\<close>, which builds \<^verbatim>\<open>final\<close>.\<close>

definition finalRecord :: "tables \<Rightarrow> jsval \<Rightarrow> jsval option" where
  "finalRecord T r = do {
     country \<leftarrow> (if truthy (own r ''country'') then Some (own r ''country'')
                 else getCountryNameFromCode T (own r ''countryCode''));
     Some (JObj
       [(''id'', own r ''id''),
        (''country'', country),
        (''countryCode'', or_else (own r ''countryCode'') (JStr ''XX'')),
        (''city'', or_else (own r ''city'') (JStr [])),
        (''lat'', if is_number (own r ''lat'') then own r ''lat'' else JNull),
        (''lon'', if is_number (own r ''lon'') then own r ''lon'' else JNull),
        (''ownership'', or_else (own r ''ownership'') (JStr ''Mullvad'')),
        (''protocols'', if is_array (own r ''protocols'') then own r ''protocols'' else JArr []),
        (''active'', if is_boolean (own r ''active'') then own r ''active'' else JBool True)])
   }"

text \<open>
  \<^verbatim>\<open>apiRelays.map(mapApiRelayToCanonical).filter(Boolean)\<close> followed by the second
  \<^verbatim>\<open>map\<close>: an exception in any call leaves the whole expression
  (\<^term>\<open>those\<close> is \<^term>\<open>None\<close> as soon as one element is).
\<close>

definition normalizeAll :: "tables \<Rightarrow> jsval list \<Rightarrow> jsval list option" where
  "normalizeAll T apiRelays = do {
     mapped \<leftarrow> those (map (mapApiRelayToCanonical T) apiRelays);
     let sanitized = filter truthy mapped;
     those (map (finalRecord T) sanitized)
   }"

text \<open>
  \<^verbatim>\<open>ingest()\<close> with the handler \<^verbatim>\<open>ingest().catch(...)\<close> of the last lines of
  the file: an exception that leaves \<^verbatim>\<open>ingest\<close> is printed and the process exits
  with code 1.
\<close>

definition ingest :: "response \<Rightarrow> world \<Rightarrow> status \<times> world" where
  "ingest res w0 =
     (let w1 = ensureDataDir w0;
          T = module_tables (loadCityCoords w1) (loadCountries w1)
      in case fetchRelaysFromApi res of
           None \<Rightarrow> (Exit1, w1\<lparr>errors := errors w1 @ [FetchFailed]\<rparr>)
         | Some apiRelays \<Rightarrow>
             (let w2 = tryWrite RAW_API_PATH (JSON_stringify (JArr apiRelays))
                         (RawWriteFailed RAW_API_PATH) w1;
                  w3 = tryWrite ROOT_RAW_API_PATH (JSON_stringify (JArr apiRelays))
                         (RawWriteFailed ROOT_RAW_API_PATH) w2
              in case normalizeAll T apiRelays of
                   None \<Rightarrow> (Exit1, w3\<lparr>errors := errors w3 @ [IngestionFailed]\<rparr>)
                 | Some final \<Rightarrow>
                     (let w4 = tryWrite RELAYS_PATH (JSON_stringify (JArr final))
                                 (WriteFailed RELAYS_PATH) w3;
                          w5 = tryWrite ROOT_RELAYS_PATH (JSON_stringify (JArr final))
                                 (WriteFailed ROOT_RELAYS_PATH) w4
                      in (Completed, w5))))"

section \<open>Lookup-table updater\<close>

text \<open>
  The loop of \<^verbatim>\<open>main\<close> in \<^verbatim>\<open>tools/update-city-coords.js\<close> over
  \<^verbatim>\<open>citiesToProcess\<close>. The table \<^verbatim>\<open>cityCoords\<close> is the list of the own
  properties of the object. The answers of the geocoding service are a parameter: what
  \<^verbatim>\<open>findCoordsForCity\<close> returns in iteration \<open>i\<close> for the city it is asked
  about, and whether \<^verbatim>\<open>saveJson\<close> succeeds in that iteration. The saved text
  is the JSON text of the table (the tool ends it with a newline).
\<close>



definition coordEntry :: "jsnum \<times> jsnum \<Rightarrow> jsval" where
  "coordEntry r = JObj [(''lat'', JNum (fst r)), (''lon'', JNum (snd r))]"

record updater =
  cityCoords :: "(string \<times> jsval) list"
  saved :: "filetext option"




section \<open>Notions used in the statements\<close>

text \<open>
  The resolution order as the specification words it. A table entry matches when it
  carries two numeric fields; the candidates are tried in a fixed order and the first
  match is the result, taken whole from one entry. An empty city code or city name is an
  absent one. The country display name is looked up from the uppercased country code in
  the loaded table, then in the built-in table, and is \<^verbatim>\<open>Unknown\<close> otherwise.
\<close>

definition entryCoords :: "jsval \<Rightarrow> (jsnum \<times> jsnum) option" where
  "entryCoords v =
     (case own v ''lat'' of
        JNum a \<Rightarrow> (case own v ''lon'' of JNum b \<Rightarrow> Some (a, b) | _ \<Rightarrow> None)
      | _ \<Rightarrow> None)"

definition tableMatch :: "(string \<times> jsval) list \<Rightarrow> string \<Rightarrow> (jsnum \<times> jsnum) option" where
  "tableMatch tab key = (case map_of tab key of Some v \<Rightarrow> entryCoords v | None \<Rightarrow> None)"






text \<open>
  An entry of the city-coordinate table is numeric when both fields have the type
  \<^verbatim>\<open>number\<close>; \<open>dropMalformed\<close> removes every key bound to an entry that is not.
\<close>

definition numericEntry :: "jsval \<Rightarrow> bool" where
  "numericEntry v = (is_number (own v ''lat'') \<and> is_number (own v ''lon''))"

definition dropMalformed :: "(string \<times> jsval) list \<Rightarrow> (string \<times> jsval) list" where
  "dropMalformed tab =
     filter (\<lambda>kv. case map_of tab (fst kv) of Some v \<Rightarrow> numericEntry v | None \<Rightarrow> False) tab"





text \<open>
  Notions for the orchestrator. A write to \<open>p\<close> succeeds during a run started in
  \<open>w\<close> when the path accepts writes and, for a path under \<^verbatim>\<open>tools/data\<close>, the
  directory exists or can be created. \<open>loadedTables\<close> is the module state after the two
  loaders. The upstream fetch fails on a network error, on a response whose status is not
  a success, on a body that is not JSON and on a JSON body that is not an array. Two worlds
  agree on the tables when the four table files are the same in both.
\<close>

definition accepts :: "world \<Rightarrow> path \<Rightarrow> bool" where
  "accepts w p = (writable w p \<and> (if inDataDir p then dataDir w \<or> mkdirOk w else True))"

definition loadedTables :: "world \<Rightarrow> tables" where
  "loadedTables w = module_tables (loadCityCoords w) (loadCountries w)"

definition fetchFails :: "response \<Rightarrow> bool" where
  "fetchFails res =
     (case res of
        NetworkError \<Rightarrow> True
      | Response ok body \<Rightarrow> (case body of NotJson \<Rightarrow> True | Json v \<Rightarrow> \<not> ok \<or> \<not> is_array v))"

definition agreeOnTables :: "world \<Rightarrow> world \<Rightarrow> bool" where
  "agreeOnTables w1 w2 =
     (files w1 CITY_COORDS_PATH = files w2 CITY_COORDS_PATH \<and>
      files w1 ROOT_CITY_COORDS_PATH = files w2 ROOT_CITY_COORDS_PATH \<and>
      files w1 COUNTRIES_PATH = files w2 COUNTRIES_PATH \<and>
      files w1 ROOT_COUNTRIES_PATH = files w2 ROOT_COUNTRIES_PATH)"

text \<open>The effect of one best-effort write on the files.\<close>

definition put :: "world \<Rightarrow> path \<Rightarrow> filetext \<Rightarrow> (path \<Rightarrow> filetext option) \<Rightarrow> (path \<Rightarrow> filetext option)" where
  "put w p f fs = (if accepts w p then fs(p \<mapsto> f) else fs)"

text \<open>A world with no files in which every write succeeds.\<close>

definition quietWorld :: world where
  "quietWorld = \<lparr> files = (\<lambda>p. None), dataDir = True, mkdirOk = True, writable = (\<lambda>p. True),
                   clock = 0, errors = [] \<rparr>"

section \<open>Properties of the coordinate resolver\<close>

lemma entryCoords_falsy: "\<not> truthy v \<Longrightarrow> entryCoords v = None"
  by (cases v) (auto simp: entryCoords_def)

lemma tryKey_object:
  assumes "cityCoordsFromFile T = JObj tab"
  shows "tryKey T key = Some (tableMatch tab key)"
proof (cases "map_of tab key")
  case None
  then show ?thesis
    by (simp add: tryKey_def js_get_def assms tableMatch_def)
next
  case (Some v)
  show ?thesis
  proof (cases "truthy v")
    case True
    then show ?thesis
      by (simp add: tryKey_def js_get_def assms tableMatch_def Some entryCoords_def
               split: jsval.splits)
  next
    case False
    then show ?thesis
      by (simp add: tryKey_def js_get_def assms tableMatch_def Some entryCoords_falsy)
  qed
qed








lemma map_of_filter_keys:
  "map_of (filter (\<lambda>kv. P (fst kv)) tab) k = (if P k then map_of tab k else None)"
  by (induction tab) auto

lemma tableMatch_dropMalformed: "tableMatch (dropMalformed tab) key = tableMatch tab key"
proof -
  have "map_of (dropMalformed tab) key =
      (if (case map_of tab key of Some v \<Rightarrow> numericEntry v | None \<Rightarrow> False) then map_of tab key else None)"
    unfolding dropMalformed_def by (rule map_of_filter_keys)
  then show ?thesis
    by (auto simp: tableMatch_def entryCoords_def numericEntry_def split: option.splits jsval.splits)
qed

lemma getCountryNameFromCode_cityCoords:
  "getCountryNameFromCode (T\<lparr>cityCoordsFromFile := x\<rparr>) code = getCountryNameFromCode T code"
  by (simp add: getCountryNameFromCode_def cong: if_cong option.case_cong)

text \<open>
  Claim C7, as the code has it. An entry whose \<^verbatim>\<open>lat\<close> or \<^verbatim>\<open>lon\<close> is not
  of type \<^verbatim>\<open>number\<close> is treated exactly as if its key were absent: for every
  table and every input the resolver gives the same result (the same pair, unresolved or
  the same exception) on the table and on the table without its malformed entries, so
  resolution continues with the next strategy.
\<close>

theorem malformed_entries_are_skipped:
  "resolveCoordinates (T\<lparr>cityCoordsFromFile := JObj tab\<rparr>) countryCode cityCode cityName =
   resolveCoordinates (T\<lparr>cityCoordsFromFile := JObj (dropMalformed tab)\<rparr>) countryCode cityCode cityName"
proof -
  let ?A = "T\<lparr>cityCoordsFromFile := JObj tab\<rparr>"
  let ?B = "T\<lparr>cityCoordsFromFile := JObj (dropMalformed tab)\<rparr>"
  have "\<And>k. tryKey ?A k = tryKey ?B k"
    by (simp add: tryKey_object [of _ tab] tryKey_object [of _ "dropMalformed tab"]
          tableMatch_dropMalformed)
  then have key: "tryKey ?A = tryKey ?B"
    by (rule ext)
  have friendly: "cityCodeToCityName ?A = cityCodeToCityName ?B"
    and centroids: "countryCentroids ?A = countryCentroids ?B"
    and country: "getCountryNameFromCode ?A = getCountryNameFromCode ?B"
    by (simp_all add: getCountryNameFromCode_cityCoords fun_eq_iff)
  have "byCityCode ?A = byCityCode ?B" "byCityName ?A = byCityName ?B"
    "byFriendlyName ?A = byFriendlyName ?B" "byCountryCentroid ?A = byCountryCentroid ?B"
    unfolding byCityCode_def byCityName_def byFriendlyName_def byCountryCentroid_def
      key friendly centroids country
    by (rule refl)+
  then show ?thesis
    unfolding resolveCoordinates_def by simp
qed

theorem malformed_entries_are_skipped_witness:
  "dropMalformed [(''xyz'', JObj [(''lat'', JStr ''NaN''), (''lon'', JNum (Finite ''12''))]),
                  (''gothenburg'', coordEntry (Finite ''57.7'', Finite ''11.97''))] =
     [(''gothenburg'', coordEntry (Finite ''57.7'', Finite ''11.97''))] \<and>
   resolveCoordinates
     ((module_tables (JObj []) (JObj []))
        \<lparr>cityCoordsFromFile :=
           JObj [(''xyz'', JObj [(''lat'', JStr ''NaN''), (''lon'', JNum (Finite ''12''))]),
                 (''gothenburg'', coordEntry (Finite ''57.7'', Finite ''11.97''))]\<rparr>)
     (JStr ''SE'') (JStr ''xyz'') (JStr ''Gothenburg'') =
     Some (Resolved (Finite ''57.7'') (Finite ''11.97''))"
proof -
  let ?tab = "[(''xyz'', JObj [(''lat'', JStr ''NaN''), (''lon'', JNum (Finite ''12''))]),
               (''gothenburg'', coordEntry (Finite ''57.7'', Finite ''11.97''))]"
  have dropped: "dropMalformed ?tab = [(''gothenburg'', coordEntry (Finite ''57.7'', Finite ''11.97''))]"
    by code_simp
  have clean: "resolveCoordinates
     ((module_tables (JObj []) (JObj []))
        \<lparr>cityCoordsFromFile := JObj [(''gothenburg'', coordEntry (Finite ''57.7'', Finite ''11.97''))]\<rparr>)
     (JStr ''SE'') (JStr ''xyz'') (JStr ''Gothenburg'') =
     Some (Resolved (Finite ''57.7'') (Finite ''11.97''))"
    by code_simp
  from malformed_entries_are_skipped [where T = "module_tables (JObj []) (JObj [])" and tab = ?tab
      and countryCode = "JStr ''SE''" and cityCode = "JStr ''xyz''" and cityName = "JStr ''Gothenburg''"]
  show ?thesis
    unfolding dropped using clean dropped by simp
qed

text \<open>
  Claim C7 as stated asks for finite numbers. The test is \<^verbatim>\<open>typeof\<close>, and
  \<^verbatim>\<open>Infinity\<close> is a number: the entry \<^verbatim>\<open>{"lat": 1e999, "lon": 12}\<close> is
  returned as a match.
\<close>

theorem non_finite_entry_counterexample:
  "resolveCoordinates
     (module_tables (JObj [(''xyz'', JObj [(''lat'', JNum PosInfinity), (''lon'', JNum (Finite ''12''))])])
        (JObj []))
     (JStr ''SE'') (JStr ''xyz'') (JStr []) = Some (Resolved PosInfinity (Finite ''12''))"
  by code_simp









section \<open>Properties of the record normalizer\<close>

subsection \<open>Shape of the result\<close>

lemma ownershipOf_values:
  "ownershipOf x = Some ow \<Longrightarrow> ow = ''Mullvad'' \<or> ow = ''Rented''"
  by (auto simp: ownershipOf_def split: jsval.splits if_splits Option.bind_splits)

lemma mapApiRelayToCanonical_SomeD:
  assumes "mapApiRelayToCanonical T x = Some r"
  shows "\<exists>code c ci t ow co.
           \<not> nullish x \<and> countryCodeOf x = Some code \<and> countryOf T x code = Some c \<and>
           cityNameOf T x = Some ci \<and> typeTag x = Some t \<and> ownershipOf x = Some ow \<and>
           resolveCoordinates T (JStr code) (own x ''city_code'') ci = Some co \<and>
           r = JObj [(''id'', or_else (own x ''hostname'') (or_else (own x ''fqdn'') (JStr []))),
                     (''country'', c),
                     (''countryCode'', or_else (JStr code) (JStr ''XX'')),
                     (''city'', or_else ci (JStr [])),
                     (''lat'', case co of Resolved a b \<Rightarrow> JNum a | Unresolved \<Rightarrow> JNull),
                     (''lon'', case co of Resolved a b \<Rightarrow> JNum b | Unresolved \<Rightarrow> JNull),
                     (''ownership'', JStr ow),
                     (''protocols'', JArr (protocolsOf t)),
                     (''active'', if truthy x \<and> is_boolean (own x ''active'')
                                  then own x ''active'' else JBool True)]"
proof (cases "nullish x")
  case True
  with assms show ?thesis
    by (simp add: mapApiRelayToCanonical_def)
next
  case False
  with assms show ?thesis
    by (auto simp: mapApiRelayToCanonical_def Let_def bind_eq_Some_conv split del: if_split)
qed

lemma countryOf_truthy: "countryOf T x code = Some c \<Longrightarrow> truthy c"
  by (auto simp: countryOf_def or_else_def split: if_splits Option.bind_splits)

lemma mapApiRelayToCanonical_shape:
  assumes "mapApiRelayToCanonical T x = Some r"
  shows "\<exists>h c cc ci la lo ow ps ac.
           r = JObj [(''id'', h), (''country'', c), (''countryCode'', JStr cc), (''city'', ci),
                     (''lat'', la), (''lon'', lo), (''ownership'', JStr ow),
                     (''protocols'', JArr ps), (''active'', JBool ac)] \<and>
           truthy c \<and> cc \<noteq> [] \<and> (truthy ci \<or> ci = JStr []) \<and>
           ((la = JNull \<and> lo = JNull) \<or> (is_number la \<and> is_number lo)) \<and>
           (ow = ''Mullvad'' \<or> ow = ''Rented'')"
proof -
  from mapApiRelayToCanonical_SomeD [OF assms] obtain code c ci t ow co where
    c: "countryOf T x code = Some c"
    and ow: "ownershipOf x = Some ow"
    and r: "r = JObj [(''id'', or_else (own x ''hostname'') (or_else (own x ''fqdn'') (JStr []))),
                      (''country'', c),
                      (''countryCode'', or_else (JStr code) (JStr ''XX'')),
                      (''city'', or_else ci (JStr [])),
                      (''lat'', case co of Resolved a b \<Rightarrow> JNum a | Unresolved \<Rightarrow> JNull),
                      (''lon'', case co of Resolved a b \<Rightarrow> JNum b | Unresolved \<Rightarrow> JNull),
                      (''ownership'', JStr ow),
                      (''protocols'', JArr (protocolsOf t)),
                      (''active'', if truthy x \<and> is_boolean (own x ''active'')
                                   then own x ''active'' else JBool True)]"
    by blast
  have tc: "truthy c"
    using c by (rule countryOf_truthy)
  have code: "\<exists>cc. or_else (JStr code) (JStr ''XX'') = JStr cc \<and> cc \<noteq> []"
    by (simp add: or_else_def)
  have city: "truthy (or_else ci (JStr [])) \<or> or_else ci (JStr []) = JStr []"
    by (simp add: or_else_def)
  have act: "\<exists>ac. (if truthy x \<and> is_boolean (own x ''active'') then own x ''active'' else JBool True) = JBool ac"
    by (cases "own x ''active''") auto
  have co: "(((case co of Resolved a b \<Rightarrow> JNum a | Unresolved \<Rightarrow> JNull) = JNull \<and>
             (case co of Resolved a b \<Rightarrow> JNum b | Unresolved \<Rightarrow> JNull) = JNull) \<or>
            (is_number (case co of Resolved a b \<Rightarrow> JNum a | Unresolved \<Rightarrow> JNull) \<and>
             is_number (case co of Resolved a b \<Rightarrow> JNum b | Unresolved \<Rightarrow> JNull)))"
    by (cases co) simp_all
  from code obtain cc where cc: "or_else (JStr code) (JStr ''XX'') = JStr cc" "cc \<noteq> []"
    by blast
  from act obtain ac where ac: "(if truthy x \<and> is_boolean (own x ''active'') then own x ''active'' else JBool True) = JBool ac"
    by blast
  show ?thesis
    unfolding r cc(1) ac
    using tc cc(2) city co ownershipOf_values [OF ow] by blast
qed

lemma finalRecord_of_canonical:
  assumes "mapApiRelayToCanonical T x = Some r"
  shows "finalRecord T r = Some r" and "truthy r"
proof -
  from mapApiRelayToCanonical_shape [OF assms]
  obtain h c cc ci la lo ow ps ac where
    r: "r = JObj [(''id'', h), (''country'', c), (''countryCode'', JStr cc), (''city'', ci),
                  (''lat'', la), (''lon'', lo), (''ownership'', JStr ow),
                  (''protocols'', JArr ps), (''active'', JBool ac)]"
    and c: "truthy c" and cc: "cc \<noteq> []" and ci: "truthy ci \<or> ci = JStr []"
    and co: "(la = JNull \<and> lo = JNull) \<or> (is_number la \<and> is_number lo)"
    and ow: "ow = ''Mullvad'' \<or> ow = ''Rented''"
    by blast
  have e1: "or_else ci (JStr []) = ci"
    using ci by (auto simp: or_else_def)
  have e2: "or_else (JStr ow) (JStr ''Mullvad'') = JStr ow"
    using ow by (auto simp: or_else_def)
  have e3: "or_else (JStr cc) (JStr ''XX'') = JStr cc"
    using cc by (simp add: or_else_def)
  from co show "finalRecord T r = Some r"
  proof
    assume "la = JNull \<and> lo = JNull"
    then show ?thesis
      using c by (simp add: finalRecord_def r e1 e2 e3)
  next
    assume "is_number la \<and> is_number lo"
    then show ?thesis
      using c by (simp add: finalRecord_def r e1 e2 e3)
  qed
  show "truthy r"
    by (simp add: r)
qed


subsection \<open>Protocols\<close>

lemma protocolsOf_cases:
  "protocolsOf t =
     (if t = ''wireguard'' \<or> t = ''wg'' then [JStr ''WireGuard'']
      else if t = ''openvpn'' \<or> t = ''ovpn'' then [JStr ''OpenVPN'']
      else [])"
  by (auto simp: protocolsOf_def)

lemma typeTag_of_string:
  "own apiRelay ''type'' = JStr s \<Longrightarrow> typeTag apiRelay = Some (lowercase s)"
  by (cases "s = []") (simp_all add: typeTag_def or_else_def lowercase_def)

lemma mapApiRelayToCanonical_protocols:
  assumes "mapApiRelayToCanonical T apiRelay = Some r"
  shows "\<exists>t. typeTag apiRelay = Some t \<and> own r ''protocols'' = JArr (protocolsOf t)"
  using assms
  by (auto simp: mapApiRelayToCanonical_def Let_def split: if_splits Option.bind_splits)

text \<open>
  Claim C9. Whenever the normalizer returns a record, its \<^verbatim>\<open>protocols\<close> list is
  decided by the lowercased type tag \<open>t\<close> alone (for a string-valued \<^verbatim>\<open>type\<close>
  field, the lowercased field): it is \<^verbatim>\<open>["WireGuard"]\<close> exactly when \<open>t\<close> is
  \<^verbatim>\<open>wireguard\<close> or \<^verbatim>\<open>wg\<close>, \<^verbatim>\<open>["OpenVPN"]\<close> exactly when \<open>t\<close>
  is \<^verbatim>\<open>openvpn\<close> or \<^verbatim>\<open>ovpn\<close>, and empty otherwise. It has at most one
  element and never holds both protocols.
\<close>

theorem protocols_single_from_type_tag:
  assumes "mapApiRelayToCanonical T apiRelay = Some r"
  shows "\<exists>t ps. typeTag apiRelay = Some t \<and> own r ''protocols'' = JArr ps \<and> length ps \<le> 1 \<and>
           ps = (if t = ''wireguard'' \<or> t = ''wg'' then [JStr ''WireGuard'']
                 else if t = ''openvpn'' \<or> t = ''ovpn'' then [JStr ''OpenVPN'']
                 else []) \<and>
           (ps = [JStr ''WireGuard''] \<longleftrightarrow> t = ''wireguard'' \<or> t = ''wg'') \<and>
           (ps = [JStr ''OpenVPN''] \<longleftrightarrow> t = ''openvpn'' \<or> t = ''ovpn'') \<and>
           (JStr ''WireGuard'' \<notin> set ps \<or> JStr ''OpenVPN'' \<notin> set ps) \<and>
           (\<forall>s. own apiRelay ''type'' = JStr s \<longrightarrow> t = lowercase s)"
proof -
  from mapApiRelayToCanonical_protocols [OF assms]
  obtain t where t: "typeTag apiRelay = Some t" and ps: "own r ''protocols'' = JArr (protocolsOf t)"
    by blast
  have "\<forall>s. own apiRelay ''type'' = JStr s \<longrightarrow> t = lowercase s"
    using t typeTag_of_string by fastforce
  with t ps show ?thesis
    by (simp add: protocolsOf_cases)
qed

theorem protocols_single_from_type_tag_witness:
  "mapApiRelayToCanonical (module_tables (JObj []) (JObj []))
     (JObj [(''hostname'', JStr ''se-got-wg-001''), (''type'', JStr ''WireGuard'')]) =
   Some (JObj
     [(''id'', JStr ''se-got-wg-001''), (''country'', JStr ''Unknown''),
      (''countryCode'', JStr ''XX''), (''city'', JStr []), (''lat'', JNull), (''lon'', JNull),
      (''ownership'', JStr ''Rented''), (''protocols'', JArr [JStr ''WireGuard'']),
      (''active'', JBool True)]) \<and>
   typeTag (JObj [(''hostname'', JStr ''se-got-wg-001''), (''type'', JStr ''WireGuard'')]) =
     Some ''wireguard''"
proof -
  let ?relay = "JObj [(''hostname'', JStr ''se-got-wg-001''), (''type'', JStr ''WireGuard'')]"
  let ?out = "JObj
     [(''id'', JStr ''se-got-wg-001''), (''country'', JStr ''Unknown''),
      (''countryCode'', JStr ''XX''), (''city'', JStr []), (''lat'', JNull), (''lon'', JNull),
      (''ownership'', JStr ''Rented''), (''protocols'', JArr [JStr ''WireGuard'']),
      (''active'', JBool True)]"
  have run: "mapApiRelayToCanonical (module_tables (JObj []) (JObj [])) ?relay = Some ?out"
    by code_simp
  have tag: "lowercase ''WireGuard'' = ''wireguard''"
    by code_simp
  from protocols_single_from_type_tag [OF run]
  obtain t where "typeTag ?relay = Some t"
    and "\<forall>s. own ?relay ''type'' = JStr s \<longrightarrow> t = lowercase s"
    by blast
  then have "typeTag ?relay = Some ''wireguard''"
    using tag by simp
  with run show ?thesis by simp
qed

subsection \<open>Ownership\<close>

text \<open>
  Claim C2. A record that carries neither an \<^verbatim>\<open>owned\<close> boolean nor a provider is
  given the ownership \<^verbatim>\<open>Rented\<close>: the initial value \<^verbatim>\<open>'Mullvad'\<close> of the
  variable is overwritten on every path.
\<close>

theorem ownership_without_signal_is_rented:
  "mapApiRelayToCanonical (module_tables (JObj []) (JObj []))
     (JObj [(''hostname'', JStr ''se-sto-001''), (''country_code'', JStr ''se'')]) =
   Some (JObj
     [(''id'', JStr ''se-sto-001''), (''country'', JStr ''Sweden''),
      (''countryCode'', JStr ''SE''), (''city'', JStr []), (''lat'', JNull), (''lon'', JNull),
      (''ownership'', JStr ''Rented''), (''protocols'', JArr []), (''active'', JBool True)])"
  by code_simp

subsection \<open>Coordinates\<close>



subsection \<open>Typed input\<close>

















section \<open>Properties of the pipeline orchestrator\<close>

lemma fetchFails_iff: "fetchFails res \<longleftrightarrow> fetchRelaysFromApi res = None"
  by (auto simp: fetchFails_def fetchRelaysFromApi_def split: response.splits filetext.splits jsval.splits)

lemma ensureDataDir_fields [simp]:
  "files (ensureDataDir w) = files w"
  "writable (ensureDataDir w) = writable w"
  "mkdirOk (ensureDataDir w) = mkdirOk w"
  "dataDir (ensureDataDir w) = (dataDir w \<or> mkdirOk w)"
  "errors (ensureDataDir w) = errors w"
  "clock (ensureDataDir w) = clock w"
  by (auto simp: ensureDataDir_def)

lemma readJson_files: "files v = files w \<Longrightarrow> readJson v p = readJson w p"
  by (simp add: readJson_def)

lemma loaded_files:
  assumes "files v = files w"
  shows "loadCityCoords v = loadCityCoords w" and "loadCountries v = loadCountries w"
  by (simp_all add: loadCityCoords_def loadCountries_def readJson_files [OF assms]
         cong: option.case_cong)

lemma loadedTables_ensureDataDir:
  "module_tables (loadCityCoords (ensureDataDir w)) (loadCountries (ensureDataDir w)) = loadedTables w"
  by (simp add: loadedTables_def loaded_files [of "ensureDataDir w" w])

lemma tryWrite_fields [simp]:
  "dataDir (tryWrite p f m w) = dataDir w"
  "mkdirOk (tryWrite p f m w) = mkdirOk w"
  "writable (tryWrite p f m w) = writable w"
  "clock (tryWrite p f m w) = clock w"
  by (simp_all add: tryWrite_def writeFile_def)

lemma tryWrite_put:
  assumes "dataDir v = (dataDir w \<or> mkdirOk w)" and "writable v = writable w"
  shows "files (tryWrite p f m v) = put w p f (files v)"
  using assms by (auto simp: tryWrite_def writeFile_def put_def accepts_def)

lemma ingest_status:
  "fst (ingest res w) =
     (case fetchRelaysFromApi res of
        None \<Rightarrow> Exit1
      | Some apiRelays \<Rightarrow>
          (case normalizeAll (loadedTables w) apiRelays of None \<Rightarrow> Exit1 | Some final \<Rightarrow> Completed))"
  by (simp add: ingest_def Let_def loadedTables_ensureDataDir split: option.splits)

lemma ingest_files:
  "files (snd (ingest res w)) =
     (case fetchRelaysFromApi res of
        None \<Rightarrow> files w
      | Some apiRelays \<Rightarrow>
          (let raw = put w ROOT_RAW_API_PATH (JSON_stringify (JArr apiRelays))
                       (put w RAW_API_PATH (JSON_stringify (JArr apiRelays)) (files w))
           in case normalizeAll (loadedTables w) apiRelays of
                None \<Rightarrow> raw
              | Some final \<Rightarrow>
                  put w ROOT_RELAYS_PATH (JSON_stringify (JArr final))
                    (put w RELAYS_PATH (JSON_stringify (JArr final)) raw)))"
proof (cases "fetchRelaysFromApi res")
  case None
  then show ?thesis
    by (simp add: ingest_def Let_def)
next
  case (Some apiRelays)
  let ?w1 = "ensureDataDir w"
  let ?raw = "JSON_stringify (JArr apiRelays)"
  let ?w2 = "tryWrite RAW_API_PATH ?raw (RawWriteFailed RAW_API_PATH) ?w1"
  let ?w3 = "tryWrite ROOT_RAW_API_PATH ?raw (RawWriteFailed ROOT_RAW_API_PATH) ?w2"
  have f2: "files ?w2 = put w RAW_API_PATH ?raw (files w)"
    by (simp add: tryWrite_put [of ?w1 w])
  have f3: "files ?w3 = put w ROOT_RAW_API_PATH ?raw (put w RAW_API_PATH ?raw (files w))"
    by (simp add: tryWrite_put [of ?w2 w] f2)
  show ?thesis
  proof (cases "normalizeAll (loadedTables w) apiRelays")
    case None
    with Some f3 show ?thesis
      by (simp add: ingest_def Let_def loadedTables_ensureDataDir)
  next
    case final: (Some final)
    let ?out = "JSON_stringify (JArr final)"
    let ?w4 = "tryWrite RELAYS_PATH ?out (WriteFailed RELAYS_PATH) ?w3"
    let ?w5 = "tryWrite ROOT_RELAYS_PATH ?out (WriteFailed ROOT_RELAYS_PATH) ?w4"
    have f4: "files ?w4 = put w RELAYS_PATH ?out (files ?w3)"
      by (simp add: tryWrite_put [of ?w3 w])
    have f5: "files ?w5 = put w ROOT_RELAYS_PATH ?out (files ?w4)"
      by (simp add: tryWrite_put [of ?w4 w])
    have "snd (ingest res w) = ?w5"
      using Some final by (simp add: ingest_def Let_def loadedTables_ensureDataDir)
    with Some final f3 f4 f5 show ?thesis
      by (simp add: Let_def)
  qed
qed


lemma those_map_None: "those (map f xs) = None \<longleftrightarrow> (\<exists>x\<in>set xs. f x = None)"
  by (induction xs) (auto split: option.splits)

lemma those_map_Some: "those (map f xs) = Some ys \<Longrightarrow> ys = map (\<lambda>x. the (f x)) xs"
  by (induction xs arbitrary: ys) (auto split: option.splits)

lemma those_map_total: "(\<forall>x\<in>set xs. f x \<noteq> None) \<Longrightarrow> those (map f xs) = Some (map (\<lambda>x. the (f x)) xs)"
  by (induction xs) auto

lemma normalizeAll_those:
  "normalizeAll T xs = those (map (mapApiRelayToCanonical T) xs)"
proof (cases "those (map (mapApiRelayToCanonical T) xs)")
  case None
  then show ?thesis by (simp add: normalizeAll_def)
next
  case (Some mapped)
  then have all: "\<forall>x\<in>set xs. mapApiRelayToCanonical T x \<noteq> None"
    using those_map_None [of "mapApiRelayToCanonical T" xs] by auto
  have mapped: "mapped = map (\<lambda>x. the (mapApiRelayToCanonical T x)) xs"
    using Some by (rule those_map_Some)
  have each: "\<forall>r\<in>set mapped. finalRecord T r = Some r \<and> truthy r"
    using all finalRecord_of_canonical unfolding mapped by fastforce
  then have keep: "filter truthy mapped = mapped"
    by (simp add: filter_id_conv)
  have "those (map (finalRecord T) mapped) = Some (map (\<lambda>r. the (finalRecord T r)) mapped)"
    using each by (intro those_map_total) auto
  also have "map (\<lambda>r. the (finalRecord T r)) mapped = mapped"
    using each by (simp add: map_idI)
  finally show ?thesis
    using Some keep by (simp add: normalizeAll_def)
qed


lemma put_same: "put w p f fs p = (if accepts w p then Some f else fs p)"
  by (simp add: put_def)

lemma put_other: "q \<noteq> p \<Longrightarrow> put w p f fs q = fs q"
  by (simp add: put_def)

lemma ingest_errors_fetch:
  "fetchRelaysFromApi res = None \<Longrightarrow> errors (snd (ingest res w)) = errors w @ [FetchFailed]"
  by (simp add: ingest_def Let_def)

lemma ingest_errors_normalize:
  assumes "fetchRelaysFromApi res = Some apiRelays" and "normalizeAll (loadedTables w) apiRelays = None"
  shows "last (errors (snd (ingest res w))) = IngestionFailed"
  using assms by (simp add: ingest_def Let_def loadedTables_ensureDataDir)

text \<open>
  Claim C4. When the upstream fetch fails (network error, non-success status, a body that
  is not JSON or not an array), the run ends with exit code 1 after printing the fetch
  error, and no file is written: every file, the canonical output and the raw cache among
  them, is what it was before the run.
\<close>

theorem fetch_failure_writes_nothing:
  assumes "fetchFails res"
  shows "fst (ingest res w) = Exit1 \<and> files (snd (ingest res w)) = files w \<and>
         errors (snd (ingest res w)) = errors w @ [FetchFailed]"
proof -
  from assms have "fetchRelaysFromApi res = None"
    by (simp add: fetchFails_iff)
  then show ?thesis
    by (simp add: ingest_status ingest_files ingest_errors_fetch)
qed

text \<open>
  Claim C3, as the code has it. After a successful fetch the records are normalized with
  no handler around the single record. When the normalization of some record throws, the
  exception leaves \<^verbatim>\<open>ingest\<close>: the run ends with exit code 1, the last error line
  is the one of the top-level handler, and neither canonical output file is touched, so
  the records that would have normalized are not written either. When no record throws,
  the run completes and every canonical output path that accepts the write holds all the
  normalized records in input order.
\<close>

theorem normalization_failure_aborts_run:
  assumes "fetchRelaysFromApi res = Some apiRelays"
  shows "((\<exists>x\<in>set apiRelays. mapApiRelayToCanonical (loadedTables w) x = None) \<longrightarrow>
            fst (ingest res w) = Exit1 \<and>
            files (snd (ingest res w)) RELAYS_PATH = files w RELAYS_PATH \<and>
            files (snd (ingest res w)) ROOT_RELAYS_PATH = files w ROOT_RELAYS_PATH \<and>
            last (errors (snd (ingest res w))) = IngestionFailed) \<and>
         ((\<forall>x\<in>set apiRelays. mapApiRelayToCanonical (loadedTables w) x \<noteq> None) \<longrightarrow>
            fst (ingest res w) = Completed \<and>
            (\<forall>p. (p = RELAYS_PATH \<or> p = ROOT_RELAYS_PATH) \<and> accepts w p \<longrightarrow>
               files (snd (ingest res w)) p =
                 Some (JSON_stringify
                   (JArr (map (\<lambda>x. the (mapApiRelayToCanonical (loadedTables w) x)) apiRelays)))))"
proof (intro conjI impI)
  assume "\<exists>x\<in>set apiRelays. mapApiRelayToCanonical (loadedTables w) x = None"
  then have none: "normalizeAll (loadedTables w) apiRelays = None"
    by (simp add: normalizeAll_those those_map_None)
  show "fst (ingest res w) = Exit1"
    using assms none by (simp add: ingest_status)
  show "files (snd (ingest res w)) RELAYS_PATH = files w RELAYS_PATH"
    using assms none by (simp add: ingest_files put_other)
  show "files (snd (ingest res w)) ROOT_RELAYS_PATH = files w ROOT_RELAYS_PATH"
    using assms none by (simp add: ingest_files put_other)
  show "last (errors (snd (ingest res w))) = IngestionFailed"
    using assms none by (rule ingest_errors_normalize)
next
  assume "\<forall>x\<in>set apiRelays. mapApiRelayToCanonical (loadedTables w) x \<noteq> None"
  then have all: "normalizeAll (loadedTables w) apiRelays =
      Some (map (\<lambda>x. the (mapApiRelayToCanonical (loadedTables w) x)) apiRelays)"
    by (simp add: normalizeAll_those those_map_total)
  show "fst (ingest res w) = Completed"
    using assms all by (simp add: ingest_status)
  show "\<forall>p. (p = RELAYS_PATH \<or> p = ROOT_RELAYS_PATH) \<and> accepts w p \<longrightarrow>
          files (snd (ingest res w)) p =
            Some (JSON_stringify
              (JArr (map (\<lambda>x. the (mapApiRelayToCanonical (loadedTables w) x)) apiRelays)))"
    using assms all by (auto simp: ingest_files put_same put_other)
qed

lemma loadedTables_agree: "agreeOnTables w1 w2 \<Longrightarrow> loadedTables w1 = loadedTables w2"
  by (simp add: agreeOnTables_def loadedTables_def loadCityCoords_def loadCountries_def readJson_def
           cong: option.case_cong)

lemma ingest_world_fields:
  "writable (snd (ingest res w)) = writable w"
  "mkdirOk (snd (ingest res w)) = mkdirOk w"
  "dataDir (snd (ingest res w)) = (dataDir w \<or> mkdirOk w)"
  "clock (snd (ingest res w)) = clock w"
  by (simp_all add: ingest_def Let_def split: option.splits)

lemma accepts_after_ingest: "accepts (snd (ingest res w)) p = accepts w p"
  by (auto simp: accepts_def ingest_world_fields)

lemma put_cong_world: "(\<And>p. accepts v p = accepts w p) \<Longrightarrow> put v = put w"
  by (simp add: put_def fun_eq_iff)

lemma ingest_keeps_tables: "agreeOnTables (snd (ingest res w)) w"
  by (simp add: agreeOnTables_def ingest_files put_other Let_def split: option.splits)

text \<open>
  Claim C8. The canonical output is a function of the upstream response and of the four
  table files alone. Two runs on the same response from worlds that agree on the table
  files (and may differ in everything else: the clock, earlier output, the error log) end
  with the same status, and when they complete they leave the same text in every
  canonical output path that accepts the write in both. Running the tool again on the
  world the first run left changes the status and the files no further.
\<close>

theorem ingest_output_determined_by_inputs:
  assumes "agreeOnTables w1 w2"
  shows "fst (ingest res w1) = fst (ingest res w2) \<and>
         (\<forall>p. (p = RELAYS_PATH \<or> p = ROOT_RELAYS_PATH) \<and> fst (ingest res w1) = Completed \<and>
               accepts w1 p \<and> accepts w2 p \<longrightarrow>
               files (snd (ingest res w1)) p = files (snd (ingest res w2)) p \<and>
               files (snd (ingest res w1)) p \<noteq> None) \<and>
         fst (ingest res (snd (ingest res w1))) = fst (ingest res w1) \<and>
         files (snd (ingest res (snd (ingest res w1)))) = files (snd (ingest res w1))"
proof -
  have T: "loadedTables w1 = loadedTables w2"
    using assms by (rule loadedTables_agree)
  have status: "fst (ingest res w1) = fst (ingest res w2)"
    unfolding ingest_status T by (rule refl)
  have out: "\<forall>p. (p = RELAYS_PATH \<or> p = ROOT_RELAYS_PATH) \<and> fst (ingest res w1) = Completed \<and>
               accepts w1 p \<and> accepts w2 p \<longrightarrow>
               files (snd (ingest res w1)) p = files (snd (ingest res w2)) p \<and>
               files (snd (ingest res w1)) p \<noteq> None"
    by (auto simp: ingest_status ingest_files T put_same put_other Let_def split: option.splits)
  let ?w = "snd (ingest res w1)"
  have T': "loadedTables ?w = loadedTables w1"
    using ingest_keeps_tables by (rule loadedTables_agree)
  have again: "fst (ingest res ?w) = fst (ingest res w1)"
    unfolding ingest_status [of res ?w] T' ingest_status [of res w1] by (rule refl)
  have p: "put ?w = put w1"
    by (rule put_cong_world) (rule accepts_after_ingest)
  have "files (snd (ingest res ?w)) q = files ?w q" for q
    by (simp add: ingest_files [of res ?w] T' p ingest_files [of res w1] Let_def put_def
             split: option.splits)
  then have same: "files (snd (ingest res ?w)) = files ?w"
    by (simp add: fun_eq_iff)
  from status out again same show ?thesis
    by blast
qed


theorem fetch_failure_writes_nothing_witness:
  "fetchFails (Response True (Json (JObj [(''error'', JStr ''unavailable'')]))) \<and>
   fst (ingest (Response True (Json (JObj [(''error'', JStr ''unavailable'')])))
          (quietWorld\<lparr>files := (\<lambda>p. None)(ROOT_RELAYS_PATH \<mapsto> Json (JArr []))\<rparr>)) = Exit1 \<and>
   files (snd (ingest (Response True (Json (JObj [(''error'', JStr ''unavailable'')])))
          (quietWorld\<lparr>files := (\<lambda>p. None)(ROOT_RELAYS_PATH \<mapsto> Json (JArr []))\<rparr>))) ROOT_RELAYS_PATH =
     Some (Json (JArr []))"
proof -
  have fails: "fetchFails (Response True (Json (JObj [(''error'', JStr ''unavailable'')])))"
    by (simp add: fetchFails_def)
  from fetch_failure_writes_nothing [OF fails] fails show ?thesis
    by simp
qed

text \<open>
  Claim C3 as stated fails: with an upstream array whose first record has a numeric
  \<^verbatim>\<open>country_code\<close> (so that \<^verbatim>\<open>toUpperCase\<close> is not a function) and whose
  second record is well formed, the run exits with code 1 and writes neither canonical
  output file, although every write would succeed.
\<close>

theorem record_failure_aborts_counterexample:
  "fst (ingest (Response True (Json (JArr [JObj [(''country_code'', JNum (Finite ''5''))],
                                          JObj [(''hostname'', JStr ''se-sto-001'')]])))
          quietWorld) = Exit1 \<and>
   files (snd (ingest (Response True (Json (JArr [JObj [(''country_code'', JNum (Finite ''5''))],
                                                  JObj [(''hostname'', JStr ''se-sto-001'')]])))
          quietWorld)) ROOT_RELAYS_PATH = None \<and>
   files (snd (ingest (Response True (Json (JArr [JObj [(''country_code'', JNum (Finite ''5''))],
                                                  JObj [(''hostname'', JStr ''se-sto-001'')]])))
          quietWorld)) RELAYS_PATH = None"
  by code_simp

theorem normalization_failure_aborts_run_witness:
  "fetchRelaysFromApi (Response True (Json (JArr [JObj [(''country_code'', JNum (Finite ''5''))],
                                                  JObj [(''hostname'', JStr ''se-sto-001'')]]))) =
     Some [JObj [(''country_code'', JNum (Finite ''5''))], JObj [(''hostname'', JStr ''se-sto-001'')]] \<and>
   mapApiRelayToCanonical (loadedTables quietWorld) (JObj [(''country_code'', JNum (Finite ''5''))]) = None \<and>
   fst (ingest (Response True (Json (JArr [JObj [(''country_code'', JNum (Finite ''5''))],
                                          JObj [(''hostname'', JStr ''se-sto-001'')]])))
          quietWorld) = Exit1 \<and>
   files (snd (ingest (Response True (Json (JArr [JObj [(''country_code'', JNum (Finite ''5''))],
                                                  JObj [(''hostname'', JStr ''se-sto-001'')]])))
          quietWorld)) ROOT_RELAYS_PATH = files quietWorld ROOT_RELAYS_PATH"
proof -
  let ?bad = "JObj [(''country_code'', JNum (Finite ''5''))]"
  let ?good = "JObj [(''hostname'', JStr ''se-sto-001'')]"
  let ?res = "Response True (Json (JArr [?bad, ?good]))"
  have fetched: "fetchRelaysFromApi ?res = Some [?bad, ?good]"
    by (simp add: fetchRelaysFromApi_def)
  have throws: "mapApiRelayToCanonical (loadedTables quietWorld) ?bad = None"
    by code_simp
  then have some: "\<exists>x\<in>set [?bad, ?good]. mapApiRelayToCanonical (loadedTables quietWorld) x = None"
    by simp
  from normalization_failure_aborts_run [OF fetched, of quietWorld] some
  have "fst (ingest ?res quietWorld) = Exit1 \<and>
        files (snd (ingest ?res quietWorld)) ROOT_RELAYS_PATH = files quietWorld ROOT_RELAYS_PATH"
    by blast
  with fetched throws show ?thesis
    by blast
qed

theorem ingest_output_determined_by_inputs_witness:
  "agreeOnTables quietWorld
     (quietWorld\<lparr>files := (\<lambda>p. None)(ROOT_RELAYS_PATH \<mapsto> NotJson), clock := 86400, errors := [FetchFailed]\<rparr>) \<and>
   fst (ingest (Response True (Json (JArr [JObj [(''hostname'', JStr ''se-sto-001'')]]))) quietWorld) = Completed \<and>
   accepts quietWorld ROOT_RELAYS_PATH \<and>
   accepts (quietWorld\<lparr>files := (\<lambda>p. None)(ROOT_RELAYS_PATH \<mapsto> NotJson), clock := 86400,
              errors := [FetchFailed]\<rparr>) ROOT_RELAYS_PATH \<and>
   files (snd (ingest (Response True (Json (JArr [JObj [(''hostname'', JStr ''se-sto-001'')]]))) quietWorld))
     ROOT_RELAYS_PATH =
   files (snd (ingest (Response True (Json (JArr [JObj [(''hostname'', JStr ''se-sto-001'')]])))
     (quietWorld\<lparr>files := (\<lambda>p. None)(ROOT_RELAYS_PATH \<mapsto> NotJson), clock := 86400,
         errors := [FetchFailed]\<rparr>))) ROOT_RELAYS_PATH"
proof -
  let ?res = "Response True (Json (JArr [JObj [(''hostname'', JStr ''se-sto-001'')]]))"
  let ?w2 = "quietWorld\<lparr>files := (\<lambda>p. None)(ROOT_RELAYS_PATH \<mapsto> NotJson), clock := 86400,
               errors := [FetchFailed]\<rparr>"
  have agree: "agreeOnTables quietWorld ?w2"
    by (simp add: agreeOnTables_def quietWorld_def)
  have completed: "fst (ingest ?res quietWorld) = Completed"
    by code_simp
  have a1: "accepts quietWorld ROOT_RELAYS_PATH"
    by (simp add: accepts_def quietWorld_def inDataDir_def)
  have a2: "accepts ?w2 ROOT_RELAYS_PATH"
    by (simp add: accepts_def quietWorld_def inDataDir_def)
  from ingest_output_determined_by_inputs [OF agree, of ?res] completed a1 a2
  have "files (snd (ingest ?res quietWorld)) ROOT_RELAYS_PATH =
        files (snd (ingest ?res ?w2)) ROOT_RELAYS_PATH"
    by blast
  with agree completed a1 a2 show ?thesis
    by blast
qed

section \<open>Properties of the lookup-table updater\<close>












end
